theory Spec2Isabelle
  imports Main "HOL-Library.Sublist"
begin

section \<open>The development commands of \<open>prefect.cli.dev\<close>\<close>

text \<open>
  The module \<open>src/prefect/cli/dev.py\<close> holds five commands: \<open>build_docs\<close>,
  \<open>build_ui\<close>, \<open>ui\<close>, \<open>start\<close> and \<open>kubernetes_manifest\<close>. Each of the first
  three is a straight sequence of calls into the operating system: print a line, run a
  child process and wait for it, test a path, remove or copy a directory tree, write a
  file. The embedding threads one explicit \<open>world\<close> through these calls; every call
  that can raise returns the exception as a value, and a call that blocks on a child
  process which never exits returns \<open>Hang\<close>. \<open>start\<close> hands two callables to a
  task group; \<open>kubernetes_manifest\<close> fills a template and prints it, and is left out.
\<close>

subsection \<open>Paths and the file system\<close>

text \<open>
  A \<open>pathlib.Path\<close> that is absolute is the list of its components;
  \<open>p / "name"\<close> appends one component. A path given as a string is resolved against
  the working directory the way POSIX does without symbolic links: a leading slash makes
  it absolute, empty components and \<open>.\<close> are dropped, \<open>..\<close> removes the last
  component.
\<close>

type_synonym path = "string list"

fun split_on :: "char \<Rightarrow> string \<Rightarrow> string list" where
  "split_on c [] = [[]]"
| "split_on c (x # xs) =
     (if x = c then [] # split_on c xs
      else (case split_on c xs of
              [] \<Rightarrow> [[x]]
            | y # ys \<Rightarrow> (x # y) # ys))"

fun norm_components :: "path \<Rightarrow> string list \<Rightarrow> path" where
  "norm_components acc [] = acc"
| "norm_components acc (c # cs) =
     (if c = [] \<or> c = ''.'' then norm_components acc cs
      else if c = ''..'' then norm_components (butlast acc) cs
      else norm_components (acc @ [c]) cs)"

definition resolve :: "path \<Rightarrow> string \<Rightarrow> path" where
  "resolve wd s =
     (case s of
        [] \<Rightarrow> wd
      | x # xs \<Rightarrow>
          if x = CHR ''/'' then norm_components [] (split_on (CHR ''/'') s)
          else norm_components wd (split_on (CHR ''/'') s))"

fun path_str :: "path \<Rightarrow> string" where
  "path_str [] = ''/''"
| "path_str [c] = CHR ''/'' # c"
| "path_str (c # cs) = CHR ''/'' # c @ path_str cs"

text \<open>
  JSON values as \<open>json.dump\<close> receives them. A Python \<open>dict\<close> keeps its keys in
  insertion order and holds each key once, so an object is an association list and
  \<open>d[k] = v\<close> is \<open>dict_set\<close>: the value is replaced in place when the key is there
  and appended otherwise.
\<close>

datatype json =
    JNull
  | JBool bool
  | JNum int
  | JStr string
  | JArr "json list"
  | JObj "(string \<times> json) list"

fun dict_set :: "(string \<times> 'v) list \<Rightarrow> string \<Rightarrow> 'v \<Rightarrow> (string \<times> 'v) list" where
  "dict_set [] k v = [(k, v)]"
| "dict_set ((k', v') # d) k v =
     (if k' = k then (k, v) # d else (k', v') # dict_set d k v)"

definition dict_get :: "(string \<times> 'v) list \<Rightarrow> string \<Rightarrow> 'v option" where
  "dict_get d k = map_of d k"

text \<open>
  A file holds either the JSON document that \<open>json.dump\<close> serialised into it or
  bytes the commands never look into. The file system maps an absolute path to what is
  there.
\<close>

datatype content = JsonDoc json | Blob string

datatype node = Dir | File content

type_synonym filesystem = "path \<Rightarrow> node option"

subsection \<open>Child processes\<close>

text \<open>
  A launch is what the operating system is asked to start: the argument vector, the
  working directory and the environment of the new process. What the process then does
  is outside the program; it is the parameter \<open>ex\<close> of every command below, a function
  from the launch and the file system it starts in to its outcome, the lines it writes to
  its output and the file system it leaves behind.
\<close>

type_synonym env = "string \<Rightarrow> string option"

record launch =
  argv :: "string list"
  wdir :: path
  penv :: env

datatype outcome =
    NotFound
  | Exited int
  | NeverExits

type_synonym exec = "launch \<Rightarrow> filesystem \<Rightarrow> outcome \<times> string list \<times> filesystem"

subsection \<open>The world, exceptions and sequencing\<close>

record world =
  cwd :: path
  environ :: env
  fs :: filesystem
  console :: "string list"
  launched :: "launch list"

datatype error =
    CalledProcessError int "string list"
  | FileNotFoundError
  | NotADirectoryError
  | IsADirectoryError
  | FileExistsError
  | LaunchFailure

datatype 'a result = Ok 'a | Raise error | Hang

type_synonym 'a prog = "world \<Rightarrow> 'a result \<times> world"

definition bind :: "'a prog \<Rightarrow> ('a \<Rightarrow> 'b prog) \<Rightarrow> 'b prog" where
  "bind m f w =
     (case m w of
        (Ok x, w') \<Rightarrow> f x w'
      | (Raise e, w') \<Rightarrow> (Raise e, w')
      | (Hang, w') \<Rightarrow> (Hang, w'))"

definition seq :: "'a prog \<Rightarrow> 'b prog \<Rightarrow> 'b prog" where
  "seq m n = bind m (\<lambda>_. n)"

definition skip :: "unit prog" where
  "skip w = (Ok (), w)"

text \<open>
  A command is run by the interpreter: a normal return ends the process with status 0,
  an exception that nothing catches ends it with status 1, and a command that never
  returns has no exit status.
\<close>

fun exit_status :: "'a result \<Rightarrow> int option" where
  "exit_status (Ok _) = Some 0"
| "exit_status (Raise _) = Some 1"
| "exit_status Hang = None"

text \<open>
  The field \<open>console\<close> is the standard output of the tool, line by line: what
  \<open>console.print\<close> writes and what a streamed child process writes.
\<close>

definition console_print :: "string \<Rightarrow> unit prog" where
  "console_print s w = (Ok (), w\<lparr>console := console w @ [s]\<rparr>)"

text \<open>
  \<open>subprocess.check_output(args, env=env)\<close>: the child runs in the current working
  directory; with no \<open>env\<close> argument it inherits \<open>os.environ\<close>, with one it gets
  exactly that mapping. The call waits for the child. A command that cannot be started
  raises and launches nothing; a non-zero exit raises \<open>CalledProcessError\<close> with the
  return code and the command. The output of the child is captured, not printed: it is the
  return value, which every caller in this module drops.
\<close>

definition the_launch :: "string list \<Rightarrow> env option \<Rightarrow> world \<Rightarrow> launch" where
  "the_launch args e w =
     \<lparr>argv = args, wdir = cwd w,
      penv = (case e of None \<Rightarrow> environ w | Some e' \<Rightarrow> e')\<rparr>"

definition check_output :: "exec \<Rightarrow> string list \<Rightarrow> env option \<Rightarrow> string list prog" where
  "check_output ex args e w =
     (let l = the_launch args e w in
      case ex l (fs w) of
        (NotFound, _, _) \<Rightarrow> (Raise FileNotFoundError, w)
      | (NeverExits, _, fs') \<Rightarrow> (Hang, w\<lparr>fs := fs', launched := launched w @ [l]\<rparr>)
      | (Exited c, out, fs') \<Rightarrow>
          (if c = 0 then Ok out else Raise (CalledProcessError c args),
           w\<lparr>fs := fs', launched := launched w @ [l]\<rparr>))"

text \<open>
  Modelled from the spec: \<open>prefect.cli.orion.open_process_and_stream_output\<close> is
  imported by the module and is not part of the sources at hand. It is the spec's Process
  Runner: it launches the command with the inherited environment merged with the
  overrides it is given (an override wins, every other variable passes through), delivers
  every line the child writes to the console, in the order the child wrote them and
  without a source tag, blocks until the child exits and returns the exit code; a non-zero
  exit is reported as that code and not raised; a command that cannot be started fails
  before anything runs or is printed. A child that never exits has its lines on the console
  and the call does not return.
\<close>

definition open_process_and_stream_output :: "exec \<Rightarrow> string list \<Rightarrow> env \<Rightarrow> int prog" where
  "open_process_and_stream_output ex command overrides w =
     (let l = \<lparr>argv = command, wdir = cwd w, penv = environ w ++ overrides\<rparr> in
      case ex l (fs w) of
        (NotFound, _, _) \<Rightarrow> (Raise LaunchFailure, w)
      | (NeverExits, out, fs') \<Rightarrow>
          (Hang, w\<lparr>fs := fs', console := console w @ out, launched := launched w @ [l]\<rparr>)
      | (Exited c, out, fs') \<Rightarrow>
          (Ok c, w\<lparr>fs := fs', console := console w @ out, launched := launched w @ [l]\<rparr>))"

text \<open>
  Modelled from the spec: \<open>prefect.utilities.filesystem.tmpchdir\<close> is imported by the
  module and is not part of the sources at hand. The spec gives every launch a working
  directory; the context manager makes its argument the working directory of its body and
  puts the previous one back when the body is left, by a return or by an exception. A
  body that never returns is never left.
\<close>

definition tmpchdir :: "path \<Rightarrow> 'a prog \<Rightarrow> 'a prog" where
  "tmpchdir p body w =
     (let owd = cwd w in
      case body (w\<lparr>cwd := p\<rparr>) of
        (Hang, w') \<Rightarrow> (Hang, w')
      | (r, w') \<Rightarrow> (r, w'\<lparr>cwd := owd\<rparr>))"

subsection \<open>File operations\<close>

text \<open>
  \<open>os.path.exists\<close>, \<open>shutil.rmtree\<close> and \<open>shutil.copytree\<close> with their default
  arguments. \<open>rmtree\<close> removes the directory and everything below it and raises on a
  path that is missing or is a file. \<open>copytree\<close> lists the source first (a missing
  source or a file raises), then creates the destination with \<open>os.makedirs\<close>, which
  raises when the destination exists or when one of its ancestors is a file and creates
  the ancestors that are missing, then copies every entry below the source. The copy is
  taken from the file system as it is at the call; a destination inside the source is
  outside this model.
\<close>

definition path_exists :: "path \<Rightarrow> bool prog" where
  "path_exists p w = (Ok (fs w p \<noteq> None), w)"

definition rmtree :: "path \<Rightarrow> unit prog" where
  "rmtree p w =
     (case fs w p of
        None \<Rightarrow> (Raise FileNotFoundError, w)
      | Some (File _) \<Rightarrow> (Raise NotADirectoryError, w)
      | Some Dir \<Rightarrow> (Ok (), w\<lparr>fs := (\<lambda>q. if prefix p q then None else fs w q)\<rparr>))"

definition is_file :: "node option \<Rightarrow> bool" where
  "is_file n = (case n of Some (File _) \<Rightarrow> True | _ \<Rightarrow> False)"

definition copytree :: "path \<Rightarrow> path \<Rightarrow> unit prog" where
  "copytree src dst w =
     (case fs w src of
        None \<Rightarrow> (Raise FileNotFoundError, w)
      | Some (File _) \<Rightarrow> (Raise NotADirectoryError, w)
      | Some Dir \<Rightarrow>
          if fs w dst \<noteq> None then (Raise FileExistsError, w)
          else if list_ex (\<lambda>q. is_file (fs w q)) (prefixes dst) then (Raise NotADirectoryError, w)
          else (Ok (),
                w\<lparr>fs := (\<lambda>q. if prefix dst q then fs w (src @ drop (length dst) q)
                              else if prefix q dst then Some Dir
                              else fs w q)\<rparr>))"

text \<open>
  \<open>open(path, "w")\<close> followed by \<open>json.dump\<close>: the file is created or replaced.
  The path is a string or a \<open>Path\<close> object. Opening raises when the path is a
  directory, when its parent is missing and when its parent is a file.
\<close>

datatype pathlike = PathStr string | PathObj path

fun abs_path :: "path \<Rightarrow> pathlike \<Rightarrow> path" where
  "abs_path wd (PathStr s) = resolve wd s"
| "abs_path wd (PathObj p) = p"

fun str_of :: "pathlike \<Rightarrow> string" where
  "str_of (PathStr s) = s"
| "str_of (PathObj p) = path_str p"

definition write_json :: "pathlike \<Rightarrow> json \<Rightarrow> unit prog" where
  "write_json target doc w =
     (let p = abs_path (cwd w) target in
      if p = [] then (Raise IsADirectoryError, w)
      else case fs w p of
        Some Dir \<Rightarrow> (Raise IsADirectoryError, w)
      | _ \<Rightarrow>
        (case fs w (butlast p) of
           None \<Rightarrow> (Raise FileNotFoundError, w)
         | Some (File _) \<Rightarrow> (Raise NotADirectoryError, w)
         | Some Dir \<Rightarrow> (Ok (), w\<lparr>fs := (fs w)(p \<mapsto> File (JsonDoc doc))\<rparr>)))"

subsection \<open>\<open>build_docs\<close> (lines 31 to 53)\<close>

text \<open>
  The generated schema \<open>orion_fastapi_app.openapi()\<close> and the project root
  \<open>prefect.__root_path__\<close> come from modules outside this one and are parameters.
  \<open>schema_path\<close> is the optional string argument; \<open>not schema_path\<close> holds for
  \<open>None\<close> and for the empty string.
\<close>

fun falsy :: "string option \<Rightarrow> bool" where
  "falsy None = True"
| "falsy (Some s) = (s = [])"

definition build_docs :: "(string \<times> json) list \<Rightarrow> path \<Rightarrow> string option \<Rightarrow> unit prog" where
  "build_docs openapi root schema_path =
     (let schema = openapi;
          schema_path' =
            (if falsy schema_path
             then PathObj (root @ [''docs'', ''api-ref'', ''schema.json''])
             else PathStr (the schema_path));
          schema' = dict_set schema ''info'' (JObj [])
      in seq (write_json schema_path' (JObj schema'))
             (console_print (''OpenAPI schema written to '' @ str_of schema_path')))"

subsection \<open>\<open>build_ui\<close> (lines 65 to 85)\<close>

text \<open>
  \<open>prefect.__root_path__\<close> and \<open>prefect.__ui_static_path__\<close> are the parameters
  \<open>root\<close> and \<open>static\<close>. The inner \<open>with\<close> block (lines 68 to 76) is
  \<open>build_ui_dist\<close>, the replacement of the static directory (lines 78 to 83) is
  \<open>build_ui_copy\<close>.
\<close>

definition build_env :: "env \<Rightarrow> env" where
  "build_env e = e(''ORION_UI_SERVE_BASE'' \<mapsto> ''/'')"

definition build_ui_dist :: "exec \<Rightarrow> path \<Rightarrow> unit prog" where
  "build_ui_dist ex root =
     tmpchdir (root @ [''orion-ui''])
       (seq (console_print ''Installing npm packages...'')
       (seq (check_output ex [''npm'', ''ci'', ''install''] None)
       (seq (console_print ''Building for distribution...'')
       (seq (\<lambda>w. check_output ex [''npm'', ''run'', ''build'']
                   (Some (build_env (environ w))) w)
            skip))))"

definition remove_existing :: "path \<Rightarrow> unit prog" where
  "remove_existing static =
     bind (path_exists static)
       (\<lambda>b. if b then seq (console_print ''Removing existing build files...'') (rmtree static)
            else skip)"

definition build_ui_copy :: "path \<Rightarrow> unit prog" where
  "build_ui_copy static =
     seq (remove_existing static)
    (seq (console_print ''Copying build into src...'')
         (\<lambda>w. copytree (resolve (cwd w) ''orion-ui/dist'') static w))"

definition build_ui :: "exec \<Rightarrow> path \<Rightarrow> path \<Rightarrow> unit prog" where
  "build_ui ex root static =
     seq (tmpchdir root (seq (build_ui_dist ex root) (build_ui_copy static)))
         (console_print ''Complete!'')"

subsection \<open>\<open>ui\<close> (lines 88 to 100)\<close>

definition ui :: "exec \<Rightarrow> path \<Rightarrow> unit prog" where
  "ui ex root =
     tmpchdir root
       (tmpchdir (root @ [''orion-ui''])
          (seq (console_print ''Installing npm packages...'')
          (seq (check_output ex [''npm'', ''install''] None)
          (seq (console_print ''Starting UI development server...'')
          (bind (open_process_and_stream_output ex [''npm'', ''run'', ''serve''] Map.empty)
                (\<lambda>_. skip))))))"

subsection \<open>\<open>start\<close> (lines 103 to 114)\<close>










subsection \<open>The launches of the commands\<close>

text \<open>
  The four child processes the commands start, as the operating system sees them when
  the command is run in world \<open>w\<close>: line 71 (\<open>npm ci install\<close>), line 76
  (\<open>npm run build\<close>), line 97 (\<open>npm install\<close>) and line 100 (\<open>npm run serve\<close>).
\<close>

definition ci_launch :: "path \<Rightarrow> world \<Rightarrow> launch" where
  "ci_launch root w = \<lparr>argv = [''npm'', ''ci'', ''install''], wdir = root @ [''orion-ui''], penv = environ w\<rparr>"

definition build_launch :: "path \<Rightarrow> world \<Rightarrow> launch" where
  "build_launch root w = \<lparr>argv = [''npm'', ''run'', ''build''], wdir = root @ [''orion-ui''],
     penv = (environ w)(''ORION_UI_SERVE_BASE'' \<mapsto> ''/'')\<rparr>"

definition install_launch :: "path \<Rightarrow> world \<Rightarrow> launch" where
  "install_launch root w = \<lparr>argv = [''npm'', ''install''], wdir = root @ [''orion-ui''], penv = environ w\<rparr>"

definition watch_launch :: "path \<Rightarrow> world \<Rightarrow> launch" where
  "watch_launch root w = \<lparr>argv = [''npm'', ''run'', ''serve''], wdir = root @ [''orion-ui''], penv = environ w\<rparr>"

subsection \<open>A small world to run the commands in\<close>

text \<open>
  A checkout at \<open>/repo\<close> whose static directory holds one file of an earlier build,
  an environment with \<open>PATH\<close> only, and three behaviours of \<open>npm\<close>: every call
  exits with 0 and the build leaves \<open>dist/index.html\<close>; every call exits with a given
  code; only \<open>npm run serve\<close> exits with a given code, after writing two lines. The
  second world is the same checkout before any build: it has no static directory.
\<close>

definition demo_root :: path where
  "demo_root = [''repo'']"

definition demo_static :: path where
  "demo_static = [''repo'', ''src'', ''prefect'', ''orion'', ''ui'']"

definition demo_fs :: filesystem where
  "demo_fs = Map.empty
     ([] \<mapsto> Dir,
      [''repo''] \<mapsto> Dir,
      [''repo'', ''orion-ui''] \<mapsto> Dir,
      [''repo'', ''docs''] \<mapsto> Dir,
      [''repo'', ''docs'', ''api-ref''] \<mapsto> Dir,
      [''repo'', ''src''] \<mapsto> Dir,
      [''repo'', ''src'', ''prefect''] \<mapsto> Dir,
      [''repo'', ''src'', ''prefect'', ''orion''] \<mapsto> Dir,
      [''repo'', ''src'', ''prefect'', ''orion'', ''ui''] \<mapsto> Dir,
      [''repo'', ''src'', ''prefect'', ''orion'', ''ui'', ''old.js''] \<mapsto> File (Blob ''old''))"

definition demo_world :: world where
  "demo_world = \<lparr>cwd = [''home''], environ = [''PATH'' \<mapsto> ''/usr/bin''], fs = demo_fs,
     console = [], launched = []\<rparr>"

definition fresh_fs :: filesystem where
  "fresh_fs = Map.empty
     ([] \<mapsto> Dir,
      [''repo''] \<mapsto> Dir,
      [''repo'', ''orion-ui''] \<mapsto> Dir,
      [''repo'', ''src''] \<mapsto> Dir,
      [''repo'', ''src'', ''prefect''] \<mapsto> Dir,
      [''repo'', ''src'', ''prefect'', ''__init__.py''] \<mapsto> File (Blob ''kept''))"

definition fresh_world :: world where
  "fresh_world = \<lparr>cwd = [''home''], environ = [''PATH'' \<mapsto> ''/usr/bin''], fs = fresh_fs,
     console = [], launched = []\<rparr>"

definition npm_ok :: exec where
  "npm_ok l f =
     (Exited 0, [''done''],
      if argv l = [''npm'', ''run'', ''build'']
      then f(wdir l @ [''dist''] \<mapsto> Dir, wdir l @ [''dist'', ''index.html''] \<mapsto> File (Blob ''new''))
      else f)"

definition npm_exits :: "int \<Rightarrow> exec" where
  "npm_exits c l f = (Exited c, [''npm ERR!''], f)"

definition npm_serve_exits :: "int \<Rightarrow> exec" where
  "npm_serve_exits c l f =
     (if argv l = [''npm'', ''run'', ''serve''] then (Exited c, [''App running'', ''crashed''], f)
      else (Exited 0, [''done''], f))"

definition demo_schema :: "(string \<times> json) list" where
  "demo_schema =
     [(''openapi'', JStr ''3.0.2''),
      (''info'', JObj [(''title'', JStr ''Prefect Orion''), (''version'', JStr ''0.1.0'')]),
      (''paths'', JObj [])]"

section \<open>Properties\<close>

subsection \<open>Unfolding the commands\<close>

lemmas prog_defs = bind_def seq_def skip_def console_print_def check_output_def
  the_launch_def open_process_and_stream_output_def tmpchdir_def Let_def

lemma resolve_dist: "resolve wd ''orion-ui/dist'' = wd @ [''orion-ui'', ''dist'']"
  by (simp add: resolve_def)

lemmas demo_defs = demo_root_def demo_static_def demo_fs_def demo_world_def npm_ok_def
  npm_exits_def npm_serve_exits_def demo_schema_def fresh_fs_def fresh_world_def

lemmas run_defs = build_ui_def build_ui_dist_def build_ui_copy_def remove_existing_def
  path_exists_def rmtree_def copytree_def is_file_def resolve_dist build_env_def ui_def prog_defs

lemma ui_launched:
  "launched (snd (ui ex root w)) = launched w @
     (case ex (install_launch root w) (fs w) of
        (NotFound, _, _) \<Rightarrow> []
      | (NeverExits, _, _) \<Rightarrow> [install_launch root w]
      | (Exited c, _, fs1) \<Rightarrow>
          if c \<noteq> 0 then [install_launch root w]
          else (case fst (ex (watch_launch root w) fs1) of
                  NotFound \<Rightarrow> [install_launch root w]
                | _ \<Rightarrow> [install_launch root w, watch_launch root w]))"
  by (simp add: ui_def prog_defs install_launch_def watch_launch_def split: prod.splits outcome.splits result.splits)

lemma ui_result:
  "fst (ui ex root w) =
     (case ex (install_launch root w) (fs w) of
        (NotFound, _, _) \<Rightarrow> Raise FileNotFoundError
      | (NeverExits, _, _) \<Rightarrow> Hang
      | (Exited c, _, fs1) \<Rightarrow>
          if c \<noteq> 0 then Raise (CalledProcessError c [''npm'', ''install''])
          else (case fst (ex (watch_launch root w) fs1) of
                  NotFound \<Rightarrow> Raise LaunchFailure
                | NeverExits \<Rightarrow> Hang
                | Exited _ \<Rightarrow> Ok ()))"
  by (simp add: ui_def prog_defs install_launch_def watch_launch_def split: prod.splits outcome.splits result.splits)

lemma ui_console:
  "console (snd (ui ex root w)) = console w @
     (case ex (install_launch root w) (fs w) of
        (Exited c, _, fs1) \<Rightarrow>
          if c = 0
          then [''Installing npm packages...'', ''Starting UI development server...''] @
               (case ex (watch_launch root w) fs1 of
                  (NotFound, _, _) \<Rightarrow> []
                | (_, out, _) \<Rightarrow> out)
          else [''Installing npm packages...'']
      | _ \<Rightarrow> [''Installing npm packages...''])"
  by (simp add: ui_def prog_defs install_launch_def watch_launch_def split: prod.splits outcome.splits result.splits)

lemma ui_new_launches:
  assumes "launched (snd (ui ex root w)) = launched w @ new"
  shows "new = [] \<or> new = [install_launch root w] \<or> new = [install_launch root w, watch_launch root w]"
  using assms unfolding ui_launched
  by (auto split: prod.splits outcome.splits if_splits)

lemma build_ui_dist_launched:
  "launched (snd (build_ui_dist ex root w)) = launched w @
     (case ex (ci_launch root w) (fs w) of
        (NotFound, _, _) \<Rightarrow> []
      | (NeverExits, _, _) \<Rightarrow> [ci_launch root w]
      | (Exited c, _, fs1) \<Rightarrow>
          if c \<noteq> 0 then [ci_launch root w]
          else (case fst (ex (build_launch root w) fs1) of
                  NotFound \<Rightarrow> [ci_launch root w]
                | _ \<Rightarrow> [ci_launch root w, build_launch root w]))"
  by (simp add: build_ui_dist_def prog_defs ci_launch_def build_launch_def build_env_def split: prod.splits outcome.splits result.splits)

lemma build_ui_dist_result:
  "fst (build_ui_dist ex root w) =
     (case ex (ci_launch root w) (fs w) of
        (NotFound, _, _) \<Rightarrow> Raise FileNotFoundError
      | (NeverExits, _, _) \<Rightarrow> Hang
      | (Exited c, _, fs1) \<Rightarrow>
          if c \<noteq> 0 then Raise (CalledProcessError c [''npm'', ''ci'', ''install''])
          else (case fst (ex (build_launch root w) fs1) of
                  NotFound \<Rightarrow> Raise FileNotFoundError
                | NeverExits \<Rightarrow> Hang
                | Exited c' \<Rightarrow> if c' \<noteq> 0 then Raise (CalledProcessError c' [''npm'', ''run'', ''build'']) else Ok ()))"
  by (simp add: build_ui_dist_def prog_defs ci_launch_def build_launch_def build_env_def split: prod.splits outcome.splits result.splits)

lemma build_ui_dist_cwd:
  "fst (build_ui_dist ex root w) \<noteq> Hang \<Longrightarrow> cwd (snd (build_ui_dist ex root w)) = cwd w"
  by (simp add: build_ui_dist_def prog_defs split: prod.splits outcome.splits result.splits if_splits)

lemma build_ui_dist_environ:
  "environ (snd (build_ui_dist ex root w)) = environ w"
  by (simp add: build_ui_dist_def prog_defs split: prod.splits outcome.splits result.splits if_splits)

lemma build_ui_unfold:
  "build_ui ex root static w =
     (case build_ui_dist ex root (w\<lparr>cwd := root\<rparr>) of
        (Ok _, w1) \<Rightarrow>
          (case build_ui_copy static w1 of
             (Ok _, w2) \<Rightarrow> (Ok (), w2\<lparr>cwd := cwd w, console := console w2 @ [''Complete!'']\<rparr>)
           | (Raise e, w2) \<Rightarrow> (Raise e, w2\<lparr>cwd := cwd w\<rparr>)
           | (Hang, w2) \<Rightarrow> (Hang, w2))
      | (Raise e, w1) \<Rightarrow> (Raise e, w1\<lparr>cwd := cwd w\<rparr>)
      | (Hang, w1) \<Rightarrow> (Hang, w1))"
  by (simp add: build_ui_def bind_def seq_def tmpchdir_def console_print_def Let_def split: prod.splits result.splits)

lemma build_ui_copy_no_hang: "fst (build_ui_copy static w) \<noteq> Hang"
  by (simp add: build_ui_copy_def remove_existing_def path_exists_def rmtree_def copytree_def prog_defs
      split: prod.splits option.splits node.splits result.splits)

lemma build_ui_copy_launched: "launched (snd (build_ui_copy static w)) = launched w"
  by (simp add: build_ui_copy_def remove_existing_def path_exists_def rmtree_def copytree_def prog_defs
      split: prod.splits option.splits node.splits result.splits)

lemma remove_existing_fs:
  "remove_existing static w = (Ok (), w2) \<Longrightarrow>
     fs w2 = (\<lambda>q. if fs w static \<noteq> None \<and> prefix static q then None else fs w q)
     \<and> cwd w2 = cwd w
     \<and> console w2 = console w @ (if fs w static \<noteq> None then [''Removing existing build files...''] else [])"
  by (auto simp add: remove_existing_def path_exists_def rmtree_def prog_defs
      split: prod.splits option.splits node.splits result.splits if_splits)

lemma copytree_fs:
  "copytree src dst w = (Ok (), w3) \<Longrightarrow>
     fs w src = Some Dir \<and> fs w dst = None \<and>
     fs w3 = (\<lambda>q. if prefix dst q then fs w (src @ drop (length dst) q)
                   else if prefix q dst then Some Dir else fs w q)
     \<and> (\<forall>q. prefix q dst \<longrightarrow> \<not> is_file (fs w q))"
  by (auto simp add: copytree_def list_ex_iff in_set_prefixes split: option.splits node.splits if_splits)

lemma build_ui_copy_split:
  assumes "build_ui_copy static w = (Ok (), w3)"
  shows "\<exists>w2. remove_existing static w = (Ok (), w2) \<and>
           copytree (cwd w @ [''orion-ui'', ''dist'']) static
             (w2\<lparr>console := console w2 @ [''Copying build into src...'']\<rparr>) = (Ok (), w3)"
proof -
  obtain r2 w2 where r: "remove_existing static w = (r2, w2)" by (cases "remove_existing static w")
  have c: "cwd w2 = cwd w"
    using r by (auto simp add: remove_existing_def path_exists_def rmtree_def prog_defs
      split: prod.splits option.splits node.splits result.splits if_splits)
  show ?thesis using assms r c
    by (cases r2) (auto simp add: build_ui_copy_def seq_def bind_def console_print_def resolve_dist)
qed

lemma prefix_static_dist:
  assumes "prefix static (dist @ r)" "\<not> prefix dist static"
  shows "prefix static dist"
  using assms by (auto simp add: prefix_append)

lemma build_ui_copy_fs:
  assumes ok: "build_ui_copy static w = (Ok (), w3)"
      and nest: "\<not> prefix (cwd w @ [''orion-ui'', ''dist'']) static"
  shows "fs w3 (static @ r) = fs w (cwd w @ [''orion-ui'', ''dist''] @ r)"
proof -
  let ?dist = "cwd w @ [''orion-ui'', ''dist'']"
  from build_ui_copy_split[OF ok] obtain w2 where
    rm: "remove_existing static w = (Ok (), w2)" and
    cp: "copytree ?dist static (w2\<lparr>console := console w2 @ [''Copying build into src...'']\<rparr>) = (Ok (), w3)"
    by blast
  from remove_existing_fs[OF rm] have f2: "fs w2 = (\<lambda>q. if fs w static \<noteq> None \<and> prefix static q then None else fs w q)"
    by simp
  from copytree_fs[OF cp] have src: "fs w2 ?dist = Some Dir"
    and f3: "fs w3 (static @ r) = fs w2 (?dist @ r)" by simp_all
  have "\<not> (fs w static \<noteq> None \<and> prefix static ?dist)" using src f2 by (auto split: if_splits)
  hence "\<not> (fs w static \<noteq> None \<and> prefix static (?dist @ r))"
    using prefix_static_dist[OF _ nest] by blast
  thus ?thesis using f3 f2 by auto
qed

lemma build_ui_copy_outside:
  assumes ok: "build_ui_copy static w = (Ok (), w3)"
      and out: "\<not> prefix static q" and ex: "fs w q \<noteq> None"
  shows "fs w3 q = fs w q"
proof -
  let ?dist = "cwd w @ [''orion-ui'', ''dist'']"
  from build_ui_copy_split[OF ok] obtain w2 where
    rm: "remove_existing static w = (Ok (), w2)" and
    cp: "copytree ?dist static (w2\<lparr>console := console w2 @ [''Copying build into src...'']\<rparr>) = (Ok (), w3)"
    by blast
  from remove_existing_fs[OF rm] have f2: "fs w2 q = fs w q" using out by simp
  from copytree_fs[OF cp] have
      f3: "fs w3 q = (if prefix q static then Some Dir else fs w2 q)"
      and nf: "prefix q static \<longrightarrow> \<not> is_file (fs w2 q)" using out by simp_all
  show ?thesis using f2 f3 nf ex by (cases "fs w q") (auto simp add: is_file_def split: node.splits)
qed

lemma build_ui_copy_absent:
  assumes "fs w static = None"
      and "fs w (cwd w @ [''orion-ui'', ''dist'']) = Some Dir"
      and "\<forall>q. prefix q static \<longrightarrow> \<not> is_file (fs w q)"
  shows "fst (build_ui_copy static w) = Ok ()
       \<and> console (snd (build_ui_copy static w)) = console w @ [''Copying build into src...'']
       \<and> fs (snd (remove_existing static w)) = fs w"
  using assms
  by (simp add: build_ui_copy_def remove_existing_def path_exists_def copytree_def prog_defs
      resolve_dist list_ex_iff in_set_prefixes)

lemma build_ui_copy_present:
  assumes "fs w static = Some Dir"
      and "fs w (cwd w @ [''orion-ui'', ''dist'']) = Some Dir"
      and "\<not> prefix static (cwd w @ [''orion-ui'', ''dist''])"
      and "\<forall>q. prefix q static \<longrightarrow> \<not> is_file (fs w q)"
  shows "fst (build_ui_copy static w) = Ok ()
       \<and> console (snd (build_ui_copy static w)) =
           console w @ [''Removing existing build files...'', ''Copying build into src...'']"
  using assms
  by (simp add: build_ui_copy_def remove_existing_def path_exists_def rmtree_def copytree_def
      prog_defs resolve_dist list_ex_iff in_set_prefixes is_file_def)

lemma build_ui_console:
  "fst (build_ui_dist ex root (w\<lparr>cwd := root\<rparr>)) = Ok () \<Longrightarrow>
   fst (build_ui_copy static (snd (build_ui_dist ex root (w\<lparr>cwd := root\<rparr>)))) = Ok () \<Longrightarrow>
   fst (build_ui ex root static w) = Ok ()
   \<and> console (snd (build_ui ex root static w)) =
       console (snd (build_ui_copy static (snd (build_ui_dist ex root (w\<lparr>cwd := root\<rparr>)))))
         @ [''Complete!'']"
  by (auto simp add: build_ui_unfold split: prod.splits result.splits)

lemma build_ui_launched:
  "launched (snd (build_ui ex root static w)) =
     launched (snd (build_ui_dist ex root (w\<lparr>cwd := root\<rparr>)))"
proof -
  obtain r1 v1 where d: "build_ui_dist ex root (w\<lparr>cwd := root\<rparr>) = (r1, v1)"
    by (cases "build_ui_dist ex root (w\<lparr>cwd := root\<rparr>)")
  obtain r3 v3 where c: "build_ui_copy static v1 = (r3, v3)"
    by (cases "build_ui_copy static v1")
  have "launched v3 = launched v1" using build_ui_copy_launched[of static v1] c by simp
  thus ?thesis using d c by (simp add: build_ui_unfold split: result.splits)
qed

lemma build_ui_new_launches:
  assumes "launched (snd (build_ui ex root static w)) = launched w @ new"
  shows "new = [] \<or> new = [ci_launch root w] \<or> new = [ci_launch root w, build_launch root w]"
  using assms unfolding build_ui_launched build_ui_dist_launched
  by (auto simp add: ci_launch_def build_launch_def split: prod.splits outcome.splits if_splits)

lemma build_launch_env:
  assumes "launched (snd (build_ui ex root static w)) = launched w @ new"
      and "l \<in> set new" and "argv l = [''npm'', ''run'', ''build'']"
  shows "penv l = (environ w)(''ORION_UI_SERVE_BASE'' \<mapsto> ''/'')"
  using build_ui_new_launches[OF assms(1)] assms(2,3)
  by (auto simp add: ci_launch_def build_launch_def)

lemma build_ui_result:
  "fst (build_ui ex root static w) =
     (case fst (build_ui_dist ex root (w\<lparr>cwd := root\<rparr>)) of
        Ok _ \<Rightarrow> fst (build_ui_copy static (snd (build_ui_dist ex root (w\<lparr>cwd := root\<rparr>))))
      | Raise e \<Rightarrow> Raise e
      | Hang \<Rightarrow> Hang)"
  by (simp add: build_ui_unfold split: prod.splits result.splits)

lemma ci_launch_cwd [simp]: "ci_launch root (w\<lparr>cwd := p\<rparr>) = ci_launch root w"
  by (simp add: ci_launch_def)

lemma build_launch_cwd [simp]: "build_launch root (w\<lparr>cwd := p\<rparr>) = build_launch root w"
  by (simp add: build_launch_def)

lemma dict_set_same: "map_of (dict_set d k v) k = Some v"
  by (induction d) auto

lemma dict_set_other: "k' \<noteq> k \<Longrightarrow> map_of (dict_set d k v) k' = map_of d k'"
  by (induction d) auto

lemma dict_set_keys: "k \<in> set (map fst d) \<Longrightarrow> map fst (dict_set d k v) = map fst d"
  by (induction d) force+

lemma write_json_fs:
  "write_json target doc w = (Ok (), w') \<Longrightarrow>
     fs w' = (fs w)(abs_path (cwd w) target \<mapsto> File (JsonDoc doc))"
  by (auto simp add: write_json_def Let_def split: if_splits option.splits node.splits)

lemma build_docs_fs:
  assumes "build_docs openapi root schema_path w = (Ok (), w')"
  shows "fs w' = (fs w)
     ((if schema_path = None \<or> schema_path = Some [] then root @ [''docs'', ''api-ref'', ''schema.json'']
       else resolve (cwd w) (the schema_path))
      \<mapsto> File (JsonDoc (JObj (dict_set openapi ''info'' (JObj [])))))"
proof -
  let ?t = "if falsy schema_path then PathObj (root @ [''docs'', ''api-ref'', ''schema.json''])
            else PathStr (the schema_path)"
  obtain r1 w1 where wj: "write_json ?t (JObj (dict_set openapi ''info'' (JObj []))) w = (r1, w1)"
    by (cases "write_json ?t (JObj (dict_set openapi ''info'' (JObj []))) w")
  have "r1 = Ok ()" and "fs w' = fs w1"
    using assms wj by (auto simp add: build_docs_def Let_def seq_def bind_def console_print_def split: result.splits)
  hence "fs w' = (fs w)(abs_path (cwd w) ?t \<mapsto> File (JsonDoc (JObj (dict_set openapi ''info'' (JObj [])))))"
    using write_json_fs wj by simp
  moreover have "abs_path (cwd w) ?t = (if schema_path = None \<or> schema_path = Some [] then root @ [''docs'', ''api-ref'', ''schema.json'']
       else resolve (cwd w) (the schema_path))"
    by (cases schema_path) auto
  ultimately show ?thesis by simp
qed

subsection \<open>The commands on the small world\<close>

lemma demo_build_ok: "fst (build_ui npm_ok demo_root demo_static demo_world) = Ok ()"
  by (simp add: run_defs demo_defs)

lemma demo_build_launched:
  "launched (snd (build_ui npm_ok demo_root demo_static demo_world)) =
     launched demo_world @ [ci_launch demo_root demo_world, build_launch demo_root demo_world]"
  by (simp add: run_defs demo_defs ci_launch_def build_launch_def)

lemma demo_ui_launched:
  "launched (snd (ui npm_ok demo_root demo_world)) =
     launched demo_world @ [install_launch demo_root demo_world, watch_launch demo_root demo_world]"
  by (simp add: run_defs demo_defs install_launch_def watch_launch_def)

section \<open>The claims\<close>

subsection \<open>The environment of the child processes\<close>

text \<open>
  C3. A child process launched with an environment override gets the inherited
  environment with the override applied. In \<open>build_ui\<close> the override is
  \<open>ORION_UI_SERVE_BASE = "/"\<close> on \<open>npm run build\<close>: in every run, a process the command
  starts with that argument vector has the variable set to \<open>/\<close> and every other variable
  exactly as \<open>os.environ\<close> has it, present or absent.
\<close>

theorem build_env_override:
  assumes "launched (snd (build_ui ex root static w)) = launched w @ new"
      and "l \<in> set new" and "argv l = [''npm'', ''run'', ''build'']"
  shows "penv l ''ORION_UI_SERVE_BASE'' = Some ''/''
       \<and> (\<forall>k. k \<noteq> ''ORION_UI_SERVE_BASE'' \<longrightarrow> penv l k = environ w k)"
  using build_launch_env[OF assms] by simp

text \<open>
  On the small world the run starts both processes; the build sees the override and the
  inherited \<open>PATH\<close>.
\<close>

theorem build_env_override_witness:
  "launched (snd (build_ui npm_ok demo_root demo_static demo_world)) =
     launched demo_world @ [ci_launch demo_root demo_world, build_launch demo_root demo_world]
   \<and> argv (build_launch demo_root demo_world) = [''npm'', ''run'', ''build'']
   \<and> environ demo_world ''ORION_UI_SERVE_BASE'' = None
   \<and> penv (build_launch demo_root demo_world) ''ORION_UI_SERVE_BASE'' = Some ''/''
   \<and> environ demo_world ''PATH'' = Some ''/usr/bin''
   \<and> penv (build_launch demo_root demo_world) ''PATH'' = Some ''/usr/bin''"
proof -
  have a: "build_launch demo_root demo_world
             \<in> set [ci_launch demo_root demo_world, build_launch demo_root demo_world]"
    by simp
  have b: "argv (build_launch demo_root demo_world) = [''npm'', ''run'', ''build'']"
    by (simp add: build_launch_def)
  have e: "environ demo_world ''ORION_UI_SERVE_BASE'' = None"
          "environ demo_world ''PATH'' = Some ''/usr/bin''"
    by (simp_all add: demo_defs)
  from build_env_override[OF demo_build_launched a b]
  show ?thesis using demo_build_launched b e by simp
qed

text \<open>
  C4, as amended. \<open>build_ui\<close> puts \<open>ORION_UI_SERVE_BASE = "/"\<close> into the environment of
  its \<open>npm run build\<close> process and passes every other variable through. The \<open>ui\<close>
  command passes no override: each process it starts, the watch process
  \<open>npm run serve\<close> included, gets the invoking environment as it is.
\<close>

theorem ui_env_inherited:
  "(launched (snd (ui ex root w)) = launched w @ new \<and> l \<in> set new \<longrightarrow> penv l = environ w)
   \<and> (launched (snd (build_ui ex root static w)) = launched w @ new' \<and> l' \<in> set new'
        \<and> argv l' = [''npm'', ''run'', ''build''] \<longrightarrow>
      penv l' ''ORION_UI_SERVE_BASE'' = Some ''/''
      \<and> (\<forall>k. k \<noteq> ''ORION_UI_SERVE_BASE'' \<longrightarrow> penv l' k = environ w k))"
proof -
  have "penv l = environ w"
    if "launched (snd (ui ex root w)) = launched w @ new" "l \<in> set new"
    using ui_new_launches[OF that(1)] that(2)
    by (auto simp add: install_launch_def watch_launch_def)
  moreover have "penv l' = (environ w)(''ORION_UI_SERVE_BASE'' \<mapsto> ''/'')"
    if "launched (snd (build_ui ex root static w)) = launched w @ new'" "l' \<in> set new'"
       "argv l' = [''npm'', ''run'', ''build'']"
    using build_launch_env[OF that] .
  ultimately show ?thesis by simp
qed

theorem ui_env_inherited_witness:
  "launched (snd (ui npm_ok demo_root demo_world)) =
     launched demo_world @ [install_launch demo_root demo_world, watch_launch demo_root demo_world]
   \<and> penv (watch_launch demo_root demo_world) = environ demo_world
   \<and> launched (snd (build_ui npm_ok demo_root demo_static demo_world)) =
     launched demo_world @ [ci_launch demo_root demo_world, build_launch demo_root demo_world]
   \<and> penv (build_launch demo_root demo_world) ''ORION_UI_SERVE_BASE'' = Some ''/''
   \<and> penv (build_launch demo_root demo_world) ''PATH'' = environ demo_world ''PATH''"
  using ui_env_inherited[of npm_ok demo_root demo_world
      "[install_launch demo_root demo_world, watch_launch demo_root demo_world]"
      "watch_launch demo_root demo_world" demo_static
      "[ci_launch demo_root demo_world, build_launch demo_root demo_world]"
      "build_launch demo_root demo_world"]
    demo_ui_launched demo_build_launched
  by (simp add: build_launch_def)

text \<open>
  C4 as stated fails: run from an environment that does not set the variable, the watch
  process of \<open>ui\<close> (the second process it starts) does not have it either.
\<close>

theorem ui_watch_env_counterexample:
  "argv (launched (snd (ui npm_ok demo_root demo_world)) ! 1) = [''npm'', ''run'', ''serve'']
   \<and> penv (launched (snd (ui npm_ok demo_root demo_world)) ! 1) ''ORION_UI_SERVE_BASE'' = None"
  by (simp add: demo_ui_launched watch_launch_def) (simp add: demo_defs)

subsection \<open>The UI unit\<close>

text \<open>
  C5. In every run of \<open>ui\<close>, \<open>npm install\<close> runs to its end before
  \<open>npm run serve\<close> is started: the watch process is started exactly when the install
  exited with 0 (and the watch command can be started at all), and it is then the second
  launch, after the install. When the install exits with a non-zero code the command
  raises \<open>CalledProcessError\<close> with that code, its exit status is 1, and the install is
  the only process it started.
\<close>

theorem ui_install_before_watch:
  assumes run: "ui ex root w = (r, w')"
      and inst: "ex (install_launch root w) (fs w) = (out, lines1, fs1)"
  shows "\<exists>new. launched w' = launched w @ new
           \<and> (if out = Exited 0 \<and> fst (ex (watch_launch root w) fs1) \<noteq> NotFound
              then new = [install_launch root w, watch_launch root w]
              else [''npm'', ''run'', ''serve''] \<notin> set (map argv new))
           \<and> (\<forall>c. out = Exited c \<and> c \<noteq> 0 \<longrightarrow>
                 r = Raise (CalledProcessError c [''npm'', ''install''])
                 \<and> exit_status r = Some 1
                 \<and> new = [install_launch root w])"
proof -
  have l: "launched w' = launched (snd (ui ex root w))" and r: "r = fst (ui ex root w)"
    using run by simp_all
  show ?thesis
    unfolding l r ui_launched ui_result using inst
    by (cases out) (auto simp add: install_launch_def split: outcome.splits)
qed

theorem ui_install_before_watch_witness:
  "ui (npm_exits 3) demo_root demo_world
     = (Raise (CalledProcessError 3 [''npm'', ''install'']),
        demo_world\<lparr>console := [''Installing npm packages...''],
                    launched := [install_launch demo_root demo_world]\<rparr>)
   \<and> npm_exits 3 (install_launch demo_root demo_world) (fs demo_world)
       = (Exited 3, [''npm ERR!''], fs demo_world)
   \<and> launched (snd (ui npm_ok demo_root demo_world))
       = [install_launch demo_root demo_world, watch_launch demo_root demo_world]"
proof -
  have run: "ui (npm_exits 3) demo_root demo_world
     = (Raise (CalledProcessError 3 [''npm'', ''install'']),
        demo_world\<lparr>console := [''Installing npm packages...''],
                    launched := [install_launch demo_root demo_world]\<rparr>)"
    by (simp add: run_defs demo_defs install_launch_def)
  have inst: "npm_exits 3 (install_launch demo_root demo_world) (fs demo_world)
       = (Exited 3, [''npm ERR!''], fs demo_world)"
    by (simp add: npm_exits_def)
  have run2: "ui npm_ok demo_root demo_world = (fst (ui npm_ok demo_root demo_world), snd (ui npm_ok demo_root demo_world))"
    by simp
  have inst2: "npm_ok (install_launch demo_root demo_world) (fs demo_world)
       = (Exited 0, [''done''], fs demo_world)"
    by (simp add: npm_ok_def install_launch_def)
  have nf: "fst (npm_ok (watch_launch demo_root demo_world) (fs demo_world)) \<noteq> NotFound"
    by (simp add: npm_ok_def)
  have e: "launched demo_world = []" by (simp add: demo_defs)
  from ui_install_before_watch[OF run2 inst2] nf e
  have "launched (snd (ui npm_ok demo_root demo_world))
       = [install_launch demo_root demo_world, watch_launch demo_root demo_world]"
    by auto
  thus ?thesis using ui_install_before_watch[OF run inst] run inst by simp
qed

text \<open>
  C8, as amended. When the install step of the UI unit exits with a non-zero code, the
  unit fails: \<open>ui\<close> raises \<open>CalledProcessError\<close> carrying the command and the code,
  and the tool's exit status is 1. An exit of the watch process is not a failure of the
  unit, whatever its code: line 100 does not use the value it awaits, so the code is
  dropped, \<open>ui\<close> returns normally with exit status 0, and its standard output holds its
  two progress lines followed by the lines of the watch process and nothing else.
\<close>

theorem ui_failure_report:
  assumes run: "ui ex root w = (r, w')"
      and inst: "ex (install_launch root w) (fs w) = (out, lines1, fs1)"
      and watch: "ex (watch_launch root w) fs1 = (out2, lines2, fs2)"
  shows "(\<forall>c. out = Exited c \<and> c \<noteq> 0 \<longrightarrow>
            r = Raise (CalledProcessError c [''npm'', ''install''])
            \<and> exit_status r = Some 1)
       \<and> (\<forall>c. out = Exited 0 \<and> out2 = Exited c \<longrightarrow>
            r = Ok () \<and> exit_status r = Some 0
            \<and> console w' = console w @
                [''Installing npm packages...'', ''Starting UI development server...'']
                @ lines2)"
proof -
  have c: "console w' = console (snd (ui ex root w))" and r: "r = fst (ui ex root w)"
    using run by simp_all
  show ?thesis
    unfolding c r ui_console ui_result using inst watch
    by (cases out) auto
qed

theorem ui_failure_report_witness:
  "npm_serve_exits 3 (install_launch demo_root demo_world) (fs demo_world)
     = (Exited 0, [''done''], fs demo_world)
   \<and> npm_serve_exits 3 (watch_launch demo_root demo_world) (fs demo_world)
     = (Exited 3, [''App running'', ''crashed''], fs demo_world)
   \<and> fst (ui (npm_serve_exits 3) demo_root demo_world) = Ok ()
   \<and> exit_status (fst (ui (npm_serve_exits 3) demo_root demo_world)) = Some 0
   \<and> npm_exits 3 (install_launch demo_root demo_world) (fs demo_world)
     = (Exited 3, [''npm ERR!''], fs demo_world)
   \<and> fst (ui (npm_exits 3) demo_root demo_world)
     = Raise (CalledProcessError 3 [''npm'', ''install''])
   \<and> exit_status (fst (ui (npm_exits 3) demo_root demo_world)) = Some 1"
proof -
  have run: "ui (npm_serve_exits 3) demo_root demo_world
     = (fst (ui (npm_serve_exits 3) demo_root demo_world),
        snd (ui (npm_serve_exits 3) demo_root demo_world))"
    by simp
  have inst: "npm_serve_exits 3 (install_launch demo_root demo_world) (fs demo_world)
     = (Exited 0, [''done''], fs demo_world)"
    by (simp add: npm_serve_exits_def install_launch_def)
  have watch: "npm_serve_exits 3 (watch_launch demo_root demo_world) (fs demo_world)
     = (Exited 3, [''App running'', ''crashed''], fs demo_world)"
    by (simp add: npm_serve_exits_def watch_launch_def)
  have run': "ui (npm_exits 3) demo_root demo_world
     = (fst (ui (npm_exits 3) demo_root demo_world), snd (ui (npm_exits 3) demo_root demo_world))"
    by simp
  have inst': "npm_exits 3 (install_launch demo_root demo_world) (fs demo_world)
     = (Exited 3, [''npm ERR!''], fs demo_world)"
    by (simp add: npm_exits_def)
  have watch': "npm_exits 3 (watch_launch demo_root demo_world) (fs demo_world)
     = (Exited 3, [''npm ERR!''], fs demo_world)"
    by (simp add: npm_exits_def)
  from ui_failure_report[OF run inst watch] ui_failure_report[OF run' inst' watch']
  show ?thesis using inst watch inst' by simp
qed

text \<open>
  C8 as stated fails. The watch process of the UI unit exits with code 3, and \<open>ui\<close>
  returns normally: the exit status is 0 and its standard output ends with the last line
  of the watch process.
\<close>

theorem ui_failure_report_counterexample:
  "fst (npm_serve_exits 3 (watch_launch demo_root demo_world) (fs demo_world)) = Exited 3
   \<and> fst (ui (npm_serve_exits 3) demo_root demo_world) = Ok ()
   \<and> exit_status (fst (ui (npm_serve_exits 3) demo_root demo_world)) = Some 0
   \<and> console (snd (ui (npm_serve_exits 3) demo_root demo_world))
       = [''Installing npm packages...'', ''Starting UI development server...'',
          ''App running'', ''crashed'']"
  by (simp add: run_defs demo_defs watch_launch_def)

subsection \<open>The one-shot build\<close>

text \<open>
  C6, as amended. \<open>build_ui\<close> runs its tools one after the other, the build only after
  the install has exited with 0. Its exit status is 0 exactly when the install exited with
  0, the build exited with 0 and the replacement of the static directory (lines 78 to 83)
  raised nothing. When a tool exits with a non-zero code, the command raises
  \<open>CalledProcessError\<close> carrying that code and the command, and its own exit status is
  1, whatever the tool's code was.
\<close>

theorem build_ui_exit_status:
  assumes ci: "ex (ci_launch root w) (fs w) = (out1, lines1, fs1)"
      and bd: "ex (build_launch root w) fs1 = (out2, lines2, fs2)"
  defines "w1 \<equiv> snd (build_ui_dist ex root (w\<lparr>cwd := root\<rparr>))"
  shows "(exit_status (fst (build_ui ex root static w)) = Some 0 \<longleftrightarrow>
            out1 = Exited 0 \<and> out2 = Exited 0 \<and> fst (build_ui_copy static w1) = Ok ())
       \<and> (\<forall>c. out1 = Exited c \<and> c \<noteq> 0 \<longrightarrow>
             fst (build_ui ex root static w) = Raise (CalledProcessError c [''npm'', ''ci'', ''install''])
             \<and> exit_status (fst (build_ui ex root static w)) = Some 1)
       \<and> (\<forall>c. out1 = Exited 0 \<and> out2 = Exited c \<and> c \<noteq> 0 \<longrightarrow>
             fst (build_ui ex root static w) = Raise (CalledProcessError c [''npm'', ''run'', ''build''])
             \<and> exit_status (fst (build_ui ex root static w)) = Some 1)
       \<and> (\<exists>new. launched (snd (build_ui ex root static w)) = launched w @ new
             \<and> prefix new [ci_launch root w, build_launch root w]
             \<and> (build_launch root w \<in> set new \<longrightarrow> out1 = Exited 0))"
proof -
  have d: "fst (build_ui_dist ex root (w\<lparr>cwd := root\<rparr>)) =
     (case out1 of NotFound \<Rightarrow> Raise FileNotFoundError | NeverExits \<Rightarrow> Hang
      | Exited c \<Rightarrow> if c \<noteq> 0 then Raise (CalledProcessError c [''npm'', ''ci'', ''install''])
          else (case out2 of NotFound \<Rightarrow> Raise FileNotFoundError | NeverExits \<Rightarrow> Hang
                | Exited c' \<Rightarrow> if c' \<noteq> 0 then Raise (CalledProcessError c' [''npm'', ''run'', ''build'']) else Ok ()))"
    using ci bd by (simp add: build_ui_dist_result split: outcome.splits)
  have a: "exit_status (fst (build_ui ex root static w)) = Some 0 \<longleftrightarrow>
            out1 = Exited 0 \<and> out2 = Exited 0 \<and> fst (build_ui_copy static w1) = Ok ()"
    unfolding build_ui_result d w1_def[symmetric]
    using build_ui_copy_no_hang[of static w1]
    by (cases "fst (build_ui_copy static w1)") (auto split: outcome.splits)
  have b: "\<forall>c. out1 = Exited c \<and> c \<noteq> 0 \<longrightarrow>
             fst (build_ui ex root static w) = Raise (CalledProcessError c [''npm'', ''ci'', ''install''])
             \<and> exit_status (fst (build_ui ex root static w)) = Some 1"
    unfolding build_ui_result d by auto
  have c: "\<forall>c. out1 = Exited 0 \<and> out2 = Exited c \<and> c \<noteq> 0 \<longrightarrow>
             fst (build_ui ex root static w) = Raise (CalledProcessError c [''npm'', ''run'', ''build''])
             \<and> exit_status (fst (build_ui ex root static w)) = Some 1"
    unfolding build_ui_result d by auto
  have l: "launched (snd (build_ui ex root static w)) = launched w @
     (case out1 of NotFound \<Rightarrow> [] | NeverExits \<Rightarrow> [ci_launch root w]
      | Exited c \<Rightarrow> if c \<noteq> 0 then [ci_launch root w]
          else (case out2 of NotFound \<Rightarrow> [ci_launch root w]
                | _ \<Rightarrow> [ci_launch root w, build_launch root w]))"
    using ci bd by (simp add: build_ui_launched build_ui_dist_launched split: outcome.splits)
  have neq: "build_launch root w \<noteq> ci_launch root w"
    by (simp add: build_launch_def ci_launch_def)
  have e: "\<exists>new. launched (snd (build_ui ex root static w)) = launched w @ new
             \<and> prefix new [ci_launch root w, build_launch root w]
             \<and> (build_launch root w \<in> set new \<longrightarrow> out1 = Exited 0)"
    unfolding l using neq by (auto split: outcome.splits)
  show ?thesis using a b c e by blast
qed

theorem build_ui_exit_status_witness:
  "npm_exits 3 (ci_launch demo_root demo_world) (fs demo_world)
       = (Exited 3, [''npm ERR!''], fs demo_world)
   \<and> fst (build_ui (npm_exits 3) demo_root demo_static demo_world)
       = Raise (CalledProcessError 3 [''npm'', ''ci'', ''install''])
   \<and> exit_status (fst (build_ui (npm_exits 3) demo_root demo_static demo_world)) = Some 1"
proof -
  have ci: "npm_exits 3 (ci_launch demo_root demo_world) (fs demo_world)
       = (Exited 3, [''npm ERR!''], fs demo_world)"
    by (simp add: npm_exits_def)
  have bd: "npm_exits 3 (build_launch demo_root demo_world) (fs demo_world)
       = (Exited 3, [''npm ERR!''], fs demo_world)"
    by (simp add: npm_exits_def)
  from build_ui_exit_status[where ex="npm_exits 3" and root=demo_root and w=demo_world
      and static=demo_static, OF ci bd]
  show ?thesis using ci by simp
qed

text \<open>
  C6 as stated fails where it has the exit status match the tool's: an install that exits
  with code 3 ends the command with status 1.
\<close>

theorem build_ui_exit_status_counterexample:
  "fst (npm_exits 3 (ci_launch demo_root demo_world) (fs demo_world)) = Exited 3
   \<and> exit_status (fst (build_ui (npm_exits 3) demo_root demo_static demo_world)) = Some 1
   \<and> exit_status (fst (build_ui (npm_exits 3) demo_root demo_static demo_world)) \<noteq> Some 3"
  by (simp add: run_defs demo_defs)

text \<open>
  C10. In every run of \<open>build_ui\<close>, with \<open>w1\<close> the world the two \<open>npm\<close> steps
  leave and \<open>w2\<close> the world after the test of line 78 and the removal of line 80.
  When the run succeeds: if the static path exists in \<open>w1\<close>, nothing is left at or
  below it in \<open>w2\<close>; if it does not exist, \<open>w2\<close> has the files of \<open>w1\<close>; the copy
  of line 83 runs in \<open>w2\<close> and succeeds; afterwards what is at and below the static path
  is exactly what the build left at and below \<open>orion-ui/dist\<close>, and nothing that existed
  elsewhere has changed. When the \<open>npm\<close> steps succeeded, the build left a directory
  \<open>orion-ui/dist\<close> and no ancestor of the static path is a file, the run does succeed in
  both cases: with no static directory nothing is removed, no removal is announced and the
  copy is made; with a static directory (not one that contains \<open>orion-ui/dist\<close>) the
  removal is announced and made before the copy. The static path is assumed not to lie
  inside \<open>orion-ui/dist\<close>.
\<close>

theorem build_ui_replaces_static:
  assumes run: "build_ui ex root static w = (r, w')"
      and nest: "\<not> prefix (root @ [''orion-ui'', ''dist'']) static"
  defines "w1 \<equiv> snd (build_ui_dist ex root (w\<lparr>cwd := root\<rparr>))"
  defines "w2 \<equiv> snd (remove_existing static w1)"
  shows "(r = Ok () \<longrightarrow>
           (fs w1 static \<noteq> None \<longrightarrow> (\<forall>p. fs w2 (static @ p) = None))
         \<and> (fs w1 static = None \<longrightarrow> fs w2 = fs w1)
         \<and> (\<exists>w3. copytree (root @ [''orion-ui'', ''dist'']) static
                    (w2\<lparr>console := console w2 @ [''Copying build into src...'']\<rparr>) = (Ok (), w3)
                \<and> fs w' = fs w3)
         \<and> (\<forall>p. fs w' (static @ p) = fs w1 (root @ [''orion-ui'', ''dist''] @ p))
         \<and> (\<forall>q. \<not> prefix static q \<and> fs w1 q \<noteq> None \<longrightarrow> fs w' q = fs w1 q))
       \<and> (fst (build_ui_dist ex root (w\<lparr>cwd := root\<rparr>)) = Ok ()
            \<and> fs w1 static = None
            \<and> fs w1 (root @ [''orion-ui'', ''dist'']) = Some Dir
            \<and> (\<forall>q. prefix q static \<longrightarrow> \<not> is_file (fs w1 q)) \<longrightarrow>
          r = Ok () \<and> fs w2 = fs w1
          \<and> console w' = console w1 @ [''Copying build into src...'', ''Complete!''])
       \<and> (fst (build_ui_dist ex root (w\<lparr>cwd := root\<rparr>)) = Ok ()
            \<and> fs w1 static = Some Dir
            \<and> fs w1 (root @ [''orion-ui'', ''dist'']) = Some Dir
            \<and> \<not> prefix static (root @ [''orion-ui'', ''dist''])
            \<and> (\<forall>q. prefix q static \<longrightarrow> \<not> is_file (fs w1 q)) \<longrightarrow>
          r = Ok ()
          \<and> console w' = console w1 @ [''Removing existing build files...'',
                                       ''Copying build into src...'', ''Complete!''])"
proof -
  have rr: "r = fst (build_ui ex root static w)" and ww: "w' = snd (build_ui ex root static w)"
    using run by simp_all
  have succ: ?thesis if ok: "r = Ok ()" and extra:
      "(fst (build_ui_dist ex root (w\<lparr>cwd := root\<rparr>)) = Ok ()
            \<and> fs w1 static = None
            \<and> fs w1 (root @ [''orion-ui'', ''dist'']) = Some Dir
            \<and> (\<forall>q. prefix q static \<longrightarrow> \<not> is_file (fs w1 q)) \<longrightarrow>
          fs w2 = fs w1
          \<and> console w' = console w1 @ [''Copying build into src...'', ''Complete!''])"
      "(fst (build_ui_dist ex root (w\<lparr>cwd := root\<rparr>)) = Ok ()
            \<and> fs w1 static = Some Dir
            \<and> fs w1 (root @ [''orion-ui'', ''dist'']) = Some Dir
            \<and> \<not> prefix static (root @ [''orion-ui'', ''dist''])
            \<and> (\<forall>q. prefix q static \<longrightarrow> \<not> is_file (fs w1 q)) \<longrightarrow>
          console w' = console w1 @ [''Removing existing build files...'',
                                       ''Copying build into src...'', ''Complete!''])"
  proof -
    have run': "build_ui ex root static w = (Ok (), w')" using run ok by simp
    obtain r1 v1 where d: "build_ui_dist ex root (w\<lparr>cwd := root\<rparr>) = (r1, v1)"
      by (cases "build_ui_dist ex root (w\<lparr>cwd := root\<rparr>)")
    have v1: "v1 = w1" using d by (simp add: w1_def)
    obtain r3 v3 where c: "build_ui_copy static w1 = (r3, v3)"
      by (cases "build_ui_copy static w1")
    have r1: "r1 = Ok ()" and r3: "r3 = Ok ()" and w': "fs w' = fs v3"
      using run' d c v1 by (auto simp add: build_ui_unfold split: result.splits)
    have cw: "cwd w1 = root"
      using build_ui_dist_cwd[of ex root "w\<lparr>cwd := root\<rparr>"] d r1 by (simp add: w1_def)
    have cok: "build_ui_copy static w1 = (Ok (), v3)" using c r3 by simp
    from build_ui_copy_split[OF cok] obtain v2 where
      rm: "remove_existing static w1 = (Ok (), v2)" and
      cp: "copytree (cwd w1 @ [''orion-ui'', ''dist'']) static
             (v2\<lparr>console := console v2 @ [''Copying build into src...'']\<rparr>) = (Ok (), v3)"
      by blast
    have v2: "v2 = w2" using rm by (simp add: w2_def)
    from remove_existing_fs[OF rm]
    have f2: "fs w2 = (\<lambda>q. if fs w1 static \<noteq> None \<and> prefix static q then None else fs w1 q)"
      using v2 by simp
    have a: "fs w1 static \<noteq> None \<longrightarrow> (\<forall>p. fs w2 (static @ p) = None)"
      using f2 by simp
    have b: "fs w1 static = None \<longrightarrow> fs w2 = fs w1"
      using f2 by auto
    have c3: "\<exists>w3. copytree (root @ [''orion-ui'', ''dist'']) static
                    (w2\<lparr>console := console w2 @ [''Copying build into src...'']\<rparr>) = (Ok (), w3)
                \<and> fs w' = fs w3"
      using cp cw v2 w' by auto
    have e: "\<forall>p. fs w' (static @ p) = fs w1 (root @ [''orion-ui'', ''dist''] @ p)"
      using build_ui_copy_fs[OF cok] nest cw w' by simp
    have f: "\<forall>q. \<not> prefix static q \<and> fs w1 q \<noteq> None \<longrightarrow> fs w' q = fs w1 q"
      using build_ui_copy_outside[OF cok] w' by simp
    show ?thesis using ok a b c3 e f extra by blast
  qed
  have cwd1: "cwd w1 = root" if "fst (build_ui_dist ex root (w\<lparr>cwd := root\<rparr>)) = Ok ()"
    using build_ui_dist_cwd[of ex root "w\<lparr>cwd := root\<rparr>"] that by (simp add: w1_def)
  have absent: "r = Ok () \<and> fs w2 = fs w1
          \<and> console w' = console w1 @ [''Copying build into src...'', ''Complete!'']"
    if h: "fst (build_ui_dist ex root (w\<lparr>cwd := root\<rparr>)) = Ok ()"
          "fs w1 static = None"
          "fs w1 (root @ [''orion-ui'', ''dist'']) = Some Dir"
          "\<forall>q. prefix q static \<longrightarrow> \<not> is_file (fs w1 q)"
  proof -
    have "fs w1 (cwd w1 @ [''orion-ui'', ''dist'']) = Some Dir" using h(3) cwd1[OF h(1)] by simp
    from build_ui_copy_absent[OF h(2) this h(4)]
    have k: "fst (build_ui_copy static w1) = Ok ()"
        "console (snd (build_ui_copy static w1)) = console w1 @ [''Copying build into src...'']"
        "fs w2 = fs w1"
      by (simp_all add: w2_def)
    from build_ui_console[OF h(1), of static] k(1,2)
    show ?thesis using k(3) by (simp add: rr ww w1_def)
  qed
  have present: "r = Ok ()
          \<and> console w' = console w1 @ [''Removing existing build files...'',
                                       ''Copying build into src...'', ''Complete!'']"
    if h: "fst (build_ui_dist ex root (w\<lparr>cwd := root\<rparr>)) = Ok ()"
          "fs w1 static = Some Dir"
          "fs w1 (root @ [''orion-ui'', ''dist'']) = Some Dir"
          "\<not> prefix static (root @ [''orion-ui'', ''dist''])"
          "\<forall>q. prefix q static \<longrightarrow> \<not> is_file (fs w1 q)"
  proof -
    have d: "fs w1 (cwd w1 @ [''orion-ui'', ''dist'']) = Some Dir" using h(3) cwd1[OF h(1)] by simp
    have n: "\<not> prefix static (cwd w1 @ [''orion-ui'', ''dist''])" using h(4) cwd1[OF h(1)] by simp
    from build_ui_copy_present[OF h(2) d n h(5)]
    have k: "fst (build_ui_copy static w1) = Ok ()"
        "console (snd (build_ui_copy static w1)) =
           console w1 @ [''Removing existing build files...'', ''Copying build into src...'']"
      by simp_all
    from build_ui_console[OF h(1), of static] k
    show ?thesis by (simp add: rr ww w1_def)
  qed
  show ?thesis
  proof (cases "r = Ok ()")
    case True
    show ?thesis using succ[OF True] absent present by blast
  next
    case False
    thus ?thesis using absent present by blast
  qed
qed

text \<open>
  Two runs. On the checkout with a static directory of an earlier build, the old file is
  gone and the new one is there. On the checkout with no static directory (and no
  \<open>orion\<close> directory above it) the run succeeds, announces no removal, copies the new
  file and leaves the file beside it alone.
\<close>

theorem build_ui_replaces_static_witness:
  "fst (build_ui npm_ok demo_root demo_static demo_world) = Ok ()
   \<and> \<not> prefix (demo_root @ [''orion-ui'', ''dist'']) demo_static
   \<and> fs (snd (build_ui_dist npm_ok demo_root (demo_world\<lparr>cwd := demo_root\<rparr>))) demo_static = Some Dir
   \<and> fs (snd (build_ui_dist npm_ok demo_root (demo_world\<lparr>cwd := demo_root\<rparr>)))
        (demo_static @ [''old.js'']) = Some (File (Blob ''old''))
   \<and> fs (snd (build_ui npm_ok demo_root demo_static demo_world)) (demo_static @ [''old.js'']) = None
   \<and> fs (snd (build_ui npm_ok demo_root demo_static demo_world)) (demo_static @ [''index.html''])
       = Some (File (Blob ''new''))
   \<and> console (snd (build_ui npm_ok demo_root demo_static demo_world))
       = [''Installing npm packages...'', ''Building for distribution...'',
          ''Removing existing build files...'', ''Copying build into src...'', ''Complete!'']
   \<and> fs (snd (build_ui_dist npm_ok demo_root (fresh_world\<lparr>cwd := demo_root\<rparr>))) demo_static = None
   \<and> fst (build_ui npm_ok demo_root demo_static fresh_world) = Ok ()
   \<and> console (snd (build_ui npm_ok demo_root demo_static fresh_world))
       = [''Installing npm packages...'', ''Building for distribution...'',
          ''Copying build into src...'', ''Complete!'']
   \<and> fs (snd (build_ui npm_ok demo_root demo_static fresh_world)) (demo_static @ [''index.html''])
       = Some (File (Blob ''new''))
   \<and> fs (snd (build_ui npm_ok demo_root demo_static fresh_world))
        [''repo'', ''src'', ''prefect'', ''__init__.py''] = Some (File (Blob ''kept''))"
proof -
  let ?d = "snd (build_ui_dist npm_ok demo_root (demo_world\<lparr>cwd := demo_root\<rparr>))"
  let ?f = "snd (build_ui_dist npm_ok demo_root (fresh_world\<lparr>cwd := demo_root\<rparr>))"
  have run: "build_ui npm_ok demo_root demo_static demo_world
               = (fst (build_ui npm_ok demo_root demo_static demo_world),
                  snd (build_ui npm_ok demo_root demo_static demo_world))"
    by simp
  have run': "build_ui npm_ok demo_root demo_static fresh_world
               = (fst (build_ui npm_ok demo_root demo_static fresh_world),
                  snd (build_ui npm_ok demo_root demo_static fresh_world))"
    by simp
  have nest: "\<not> prefix (demo_root @ [''orion-ui'', ''dist'']) demo_static"
    by (simp add: demo_defs)
  have nest': "\<not> prefix demo_static (demo_root @ [''orion-ui'', ''dist''])"
    by (simp add: demo_defs)
  have d0: "fst (build_ui_dist npm_ok demo_root (demo_world\<lparr>cwd := demo_root\<rparr>)) = Ok ()"
    by (simp add: run_defs demo_defs)
  have d1: "fs ?d (demo_root @ [''orion-ui'', ''dist''] @ [''old.js'']) = None"
    by (simp add: run_defs demo_defs)
  have d2: "fs ?d (demo_root @ [''orion-ui'', ''dist''] @ [''index.html'']) = Some (File (Blob ''new''))"
    by (simp add: run_defs demo_defs)
  have d3: "fs ?d demo_static = Some Dir"
    by (simp add: run_defs demo_defs)
  have d4: "fs ?d (demo_static @ [''old.js'']) = Some (File (Blob ''old''))"
    by (simp add: run_defs demo_defs)
  have d5: "fs ?d (demo_root @ [''orion-ui'', ''dist'']) = Some Dir"
    by (simp add: run_defs demo_defs)
  have d6: "\<forall>q. prefix q demo_static \<longrightarrow> \<not> is_file (fs ?d q)"
    by (simp add: run_defs demo_defs prefix_def)
  have d7: "console ?d = [''Installing npm packages...'', ''Building for distribution...'']"
    by (simp add: run_defs demo_defs)
  have f0: "fst (build_ui_dist npm_ok demo_root (fresh_world\<lparr>cwd := demo_root\<rparr>)) = Ok ()"
    by (simp add: run_defs demo_defs)
  have f2: "fs ?f (demo_root @ [''orion-ui'', ''dist''] @ [''index.html'']) = Some (File (Blob ''new''))"
    by (simp add: run_defs demo_defs)
  have f3: "fs ?f demo_static = None"
    by (simp add: run_defs demo_defs)
  have f4: "fs ?f [''repo'', ''src'', ''prefect'', ''__init__.py''] = Some (File (Blob ''kept''))"
    by (simp add: run_defs demo_defs)
  have f5: "fs ?f (demo_root @ [''orion-ui'', ''dist'']) = Some Dir"
    by (simp add: run_defs demo_defs)
  have f6: "\<forall>q. prefix q demo_static \<longrightarrow> \<not> is_file (fs ?f q)"
    by (simp add: run_defs demo_defs prefix_def)
  have f7: "console ?f = [''Installing npm packages...'', ''Building for distribution...'']"
    by (simp add: run_defs demo_defs)
  have f8: "\<not> prefix demo_static [''repo'', ''src'', ''prefect'', ''__init__.py'']"
    by (simp add: demo_defs)
  note th = build_ui_replaces_static[OF run nest]
  note th' = build_ui_replaces_static[OF run' nest]
  have ok: "fst (build_ui npm_ok demo_root demo_static demo_world) = Ok ()"
    and con: "console (snd (build_ui npm_ok demo_root demo_static demo_world))
       = [''Installing npm packages...'', ''Building for distribution...'',
          ''Removing existing build files...'', ''Copying build into src...'', ''Complete!'']"
    using th d0 d3 d5 d6 d7 nest' by simp_all
  have ok': "fst (build_ui npm_ok demo_root demo_static fresh_world) = Ok ()"
    and con': "console (snd (build_ui npm_ok demo_root demo_static fresh_world))
       = [''Installing npm packages...'', ''Building for distribution...'',
          ''Copying build into src...'', ''Complete!'']"
    using th' f0 f3 f5 f6 f7 by simp_all
  have sub: "\<forall>r. fs (snd (build_ui npm_ok demo_root demo_static demo_world)) (demo_static @ r)
          = fs ?d (demo_root @ [''orion-ui'', ''dist''] @ r)"
    using th ok by blast
  have sub': "\<forall>r. fs (snd (build_ui npm_ok demo_root demo_static fresh_world)) (demo_static @ r)
          = fs ?f (demo_root @ [''orion-ui'', ''dist''] @ r)"
    and out': "\<forall>q. \<not> prefix demo_static q \<and> fs ?f q \<noteq> None \<longrightarrow>
          fs (snd (build_ui npm_ok demo_root demo_static fresh_world)) q = fs ?f q"
    using th' ok' by blast+
  have kept: "fs (snd (build_ui npm_ok demo_root demo_static fresh_world))
        [''repo'', ''src'', ''prefect'', ''__init__.py''] = Some (File (Blob ''kept''))"
    using out' f4 f8 by simp
  show ?thesis
    using ok nest d3 d4 sub d1 d2 con f3 ok' con' sub' f2 kept by simp
qed

subsection \<open>The schema file\<close>

text \<open>
  C9. When \<open>build_docs\<close> returns, the file it wrote holds the generated schema with the
  top-level key \<open>info\<close> set to the empty object: every other top-level key has the
  value the schema gave it, the keys keep their order, and no other file has changed. The
  file is \<open>docs/api-ref/schema.json\<close> under the project root when \<open>schema_path\<close> is
  omitted or empty, and the given path, resolved against the working directory, otherwise.
\<close>

theorem build_docs_writes_schema:
  assumes "build_docs openapi root schema_path w = (Ok (), w')"
  defines "target \<equiv> (if schema_path = None \<or> schema_path = Some []
                      then root @ [''docs'', ''api-ref'', ''schema.json'']
                      else resolve (cwd w) (the schema_path))"
  shows "\<exists>d. fs w' target = Some (File (JsonDoc (JObj d)))
           \<and> dict_get d ''info'' = Some (JObj [])
           \<and> (\<forall>k. k \<noteq> ''info'' \<longrightarrow> dict_get d k = dict_get openapi k)
           \<and> (''info'' \<in> set (map fst openapi) \<longrightarrow> map fst d = map fst openapi)
           \<and> (\<forall>q. q \<noteq> target \<longrightarrow> fs w' q = fs w q)"
proof -
  have "fs w' = (fs w)(target \<mapsto> File (JsonDoc (JObj (dict_set openapi ''info'' (JObj [])))))"
    using build_docs_fs[OF assms(1)] by (simp add: target_def)
  thus ?thesis
    by (intro exI[of _ "dict_set openapi ''info'' (JObj [])"])
       (simp add: dict_get_def dict_set_same dict_set_other dict_set_keys)
qed

theorem build_docs_writes_schema_witness:
  "build_docs demo_schema demo_root None demo_world
     = (Ok (), snd (build_docs demo_schema demo_root None demo_world))
   \<and> fs (snd (build_docs demo_schema demo_root None demo_world)) [''repo'', ''docs'', ''api-ref'', ''schema.json'']
       = Some (File (JsonDoc (JObj
           [(''openapi'', JStr ''3.0.2''), (''info'', JObj []), (''paths'', JObj [])])))
   \<and> console (snd (build_docs demo_schema demo_root None demo_world))
       = [''OpenAPI schema written to /repo/docs/api-ref/schema.json'']
   \<and> fs (snd (build_docs demo_schema demo_root (Some ''out/s.json'') (demo_world\<lparr>cwd := [''repo'', ''docs'']\<rparr>)))
         [''repo'', ''docs'', ''out'', ''s.json''] = None"
proof -
  have run: "build_docs demo_schema demo_root None demo_world
     = (Ok (), snd (build_docs demo_schema demo_root None demo_world))"
    by (simp add: prod_eq_iff build_docs_def write_json_def prog_defs demo_defs)
  have v: "fs (snd (build_docs demo_schema demo_root None demo_world)) [''repo'', ''docs'', ''api-ref'', ''schema.json'']
       = Some (File (JsonDoc (JObj
           [(''openapi'', JStr ''3.0.2''), (''info'', JObj []), (''paths'', JObj [])])))"
    by (simp add: build_docs_def write_json_def prog_defs demo_defs demo_schema_def)
  have c: "console (snd (build_docs demo_schema demo_root None demo_world))
       = [''OpenAPI schema written to /repo/docs/api-ref/schema.json'']"
    by (simp add: build_docs_def write_json_def prog_defs demo_defs demo_schema_def)
  have n: "fs (snd (build_docs demo_schema demo_root (Some ''out/s.json'') (demo_world\<lparr>cwd := [''repo'', ''docs'']\<rparr>)))
         [''repo'', ''docs'', ''out'', ''s.json''] = None"
    by (simp add: build_docs_def write_json_def prog_defs demo_defs demo_schema_def resolve_def)
  from build_docs_writes_schema[OF run]
  show ?thesis using run v c n by simp
qed

subsection \<open>The dev session\<close>



end
